theory Spec2Isabelle
  imports Main "HOL-Library.Sublist"
begin

section \<open>Python values\<close>

text \<open>
  A Python \<open>str\<close> is a sequence of Unicode code points: slicing (\<open>s[:50]\<close>) and
  iteration count code points, not bytes. The literals of \<open>main.py\<close> are ASCII except
  for three symbols of the diagnostic endpoint, given below by their code points.
\<close>

type_synonym pystr = "nat list"

definition ascii :: "string \<Rightarrow> pystr" where
  "ascii s = map of_char s"

definition quoted :: "pystr \<Rightarrow> pystr" where
  \<comment> \<open>the text between two apostrophes (code point 39)\<close>
  "quoted s = 39 # s @ [39]"

definition CHECK_MARK :: pystr where
  "CHECK_MARK = [0x2705]"

definition CROSS_MARK :: pystr where
  "CROSS_MARK = [0x274C]"

definition WARNING_SIGN :: pystr where
  "WARNING_SIGN = [0x26A0, 0xFE0F]"

text \<open>
  What \<open>json.load\<close> returns: \<open>None\<close>, \<open>bool\<close>, \<open>int\<close>, \<open>float\<close>, \<open>str\<close>,
  \<open>list\<close> and \<open>dict\<close> with \<open>str\<close> keys (in insertion order, the first binding of a
  key being the one a lookup sees). The service never computes with a float, so the
  type of floats is left opaque.
\<close>

typedecl pyfloat

datatype json =
    JNull
  | JBool bool
  | JInt int
  | JFloat pyfloat
  | JStr pystr
  | JArr "json list"
  | JObj "(pystr \<times> json) list"

fun type_name :: "json \<Rightarrow> pystr" where
  "type_name JNull = ascii ''NoneType''"
| "type_name (JBool _) = ascii ''bool''"
| "type_name (JInt _) = ascii ''int''"
| "type_name (JFloat _) = ascii ''float''"
| "type_name (JStr _) = ascii ''str''"
| "type_name (JArr _) = ascii ''list''"
| "type_name (JObj _) = ascii ''dict''"

subsection \<open>Models (for documentation)\<close>





subsection \<open>Exceptions\<close>

text \<open>
  The classes the \<open>except\<close> clauses of \<open>main.py\<close> tell apart, all below
  \<open>Exception\<close>. \<open>OtherException c\<close> is any further subclass of \<open>Exception\<close> that is
  neither below \<open>FileNotFoundError\<close> nor below \<open>ImportError\<close> (\<open>JSONDecodeError\<close>,
  \<open>PermissionError\<close>, \<open>UnicodeDecodeError\<close>, ...), named \<open>c\<close>. A raised exception
  carries its class and \<open>str(e)\<close>.
\<close>

datatype exc_class =
    FileNotFoundError
  | ModuleNotFoundError
  | ImportError
  | AttributeError
  | TypeError
  | OtherException pystr

datatype py_error = PyError (exc_class_of: exc_class) (str: pystr)

text \<open>\<open>except ImportError\<close> also catches its subclass \<open>ModuleNotFoundError\<close>.\<close>

definition isinstance_ImportError :: "py_error \<Rightarrow> bool" where
  "isinstance_ImportError e =
     (exc_class_of e = ImportError \<or> exc_class_of e = ModuleNotFoundError)"

definition isinstance_FileNotFoundError :: "py_error \<Rightarrow> bool" where
  "isinstance_FileNotFoundError e = (exc_class_of e = FileNotFoundError)"

datatype http_exception = HTTPException (status_code: nat) (detail: pystr)

text \<open>What a \<open>try\<close> block of an endpoint can raise.\<close>

datatype exn = Http http_exception | Py py_error

text \<open>
  The status of the response to a handler's outcome: a handler that returns (a value its
  route can serialise) is answered with 200, one that raises \<open>HTTPException\<close> with the
  exception's \<open>status_code\<close>.
\<close>

definition status_of :: "http_exception + 'a \<Rightarrow> nat" where
  "status_of r = (case r of Inr _ \<Rightarrow> 200 | Inl h \<Rightarrow> status_code h)"

section \<open>The world a request runs in\<close>

text \<open>
  A path either does not exist (\<open>os.path.exists\<close> is false) or exists; for an existing
  path, \<open>Present r\<close> records what \<open>open(path, "r", encoding="utf-8")\<close> followed by
  \<open>json.load\<close> yields: the parsed value, or the exception either of them raises.
\<close>

datatype file_state = Absent | Present "py_error + json"

text \<open>
  The optional \<open>database\<close> module is not part of the service; what the diagnostic
  endpoint sees of it is a parameter: the outcome of \<open>from database import db\<close>, and
  for a \<open>db\<close> that is not \<open>None\<close> the outcome of evaluating \<open>db.name\<close> and
  \<open>db.list_collection_names()\<close>.
\<close>

record db_handle =
  db_name :: "py_error + pystr"
  db_list_collection_names :: "py_error + pystr list"

record world =
  backend_dir :: pystr
  files :: "pystr \<Rightarrow> file_state"
  environ :: "pystr \<Rightarrow> pystr option"
  database_module :: "py_error + db_handle option"

subsection \<open>Helpers to load local JSON files\<close>

definition os_path_join :: "pystr \<Rightarrow> pystr \<Rightarrow> pystr" where
  \<comment> \<open>\<open>posixpath.join\<close> of two components\<close>
  "os_path_join a b =
     (if take 1 b = ascii ''/'' then b
      else if a = [] \<or> last a = 47 then a @ b
      else a @ ascii ''/'' @ b)"

definition PROFILE_PATH :: "world \<Rightarrow> pystr" where
  "PROFILE_PATH w = os_path_join (backend_dir w) (ascii ''profile.json'')"

definition DIARY_PATH :: "world \<Rightarrow> pystr" where
  "DIARY_PATH w = os_path_join (backend_dir w) (ascii ''diary.json'')"

text \<open>
  The two file operations of \<open>read_json_file\<close>. Neither changes the world:
  \<open>os.path.exists\<close> only looks, and \<open>open\<close> in mode \<open>"r"\<close> neither creates nor
  truncates the file. \<open>open_json_load\<close> is the \<open>with\<close> statement, \<open>open\<close> followed by
  \<open>json.load\<close>; on a path that does not exist \<open>open\<close> raises \<open>FileNotFoundError\<close>
  itself (a case \<open>read_json_file\<close> never reaches).
\<close>

definition os_path_exists :: "pystr \<Rightarrow> world \<Rightarrow> bool \<times> world" where
  "os_path_exists path w = (files w path \<noteq> Absent, w)"

definition open_json_load :: "pystr \<Rightarrow> world \<Rightarrow> (py_error + json) \<times> world" where
  "open_json_load path w =
     (case files w path of
        Absent \<Rightarrow>
          (Inl (PyError FileNotFoundError
                  (ascii ''[Errno 2] No such file or directory: '' @ quoted path)), w)
      | Present r \<Rightarrow> (r, w))"

definition read_json_file :: "pystr \<Rightarrow> world \<Rightarrow> (py_error + json) \<times> world" where
  "read_json_file path w =
     (case os_path_exists path w of
        (False, w1) \<Rightarrow>
          (Inl (PyError FileNotFoundError (ascii ''File not found: '' @ path)), w1)
      | (True, w1) \<Rightarrow> open_json_load path w1)"

section \<open>Routes\<close>

definition get_profile :: "world \<Rightarrow> (http_exception + json) \<times> world" where
  "get_profile w =
     (case read_json_file (PROFILE_PATH w) w of
        (Inr data, w') \<Rightarrow> (Inr data, w')
      | (Inl e, w') \<Rightarrow>
          if isinstance_FileNotFoundError e
          then (Inl (HTTPException 404
                  (ascii ''profile.json not found. Add it to the backend root.'')), w')
          else (Inl (HTTPException 500 (str e)), w'))"

text \<open>
  \<open>list_diary\<close>: an object with an \<open>"items"\<close> key gives the value under that key
  (whatever it is), a list gives itself, anything else the empty list; a missing file
  gives the empty list too.
\<close>

definition list_diary :: "world \<Rightarrow> (http_exception + json) \<times> world" where
  "list_diary w =
     (case read_json_file (DIARY_PATH w) w of
        (Inr data, w') \<Rightarrow>
          (case data of
             JObj kvs \<Rightarrow>
               (case map_of kvs (ascii ''items'') of
                  Some v \<Rightarrow> (Inr v, w')
                | None \<Rightarrow> (Inr (JArr []), w'))
           | JArr xs \<Rightarrow> (Inr (JArr xs), w')
           | _ \<Rightarrow> (Inr (JArr []), w'))
      | (Inl e, w') \<Rightarrow>
          if isinstance_FileNotFoundError e then (Inr (JArr []), w')
          else (Inl (HTTPException 500 (str e)), w'))"

text \<open>
  \<open>for item in items\<close>: a list yields its elements, a dict its keys, a string its
  characters; any other value raises \<open>TypeError\<close>.
\<close>

fun py_iter :: "json \<Rightarrow> py_error + json list" where
  "py_iter (JArr xs) = Inr xs"
| "py_iter (JObj kvs) = Inr (map (\<lambda>kv. JStr (fst kv)) kvs)"
| "py_iter (JStr s) = Inr (map (\<lambda>c. JStr [c]) s)"
| "py_iter v =
     Inl (PyError TypeError (quoted (type_name v) @ ascii '' object is not iterable''))"

text \<open>
  \<open>item.get(key)\<close>: on a dict the value under the key, or \<open>None\<close>; any other value
  has no attribute \<open>get\<close>.
\<close>

fun py_get :: "json \<Rightarrow> pystr \<Rightarrow> py_error + json" where
  "py_get (JObj kvs) key = Inr (case map_of kvs key of Some v \<Rightarrow> v | None \<Rightarrow> JNull)"
| "py_get v key =
     Inl (PyError AttributeError
            (quoted (type_name v) @ ascii '' object has no attribute '' @ quoted (ascii ''get'')))"

text \<open>\<open>v == item_id\<close> for a string \<open>item_id\<close>: only an equal string is equal.\<close>

fun py_eq_str :: "json \<Rightarrow> pystr \<Rightarrow> bool" where
  "py_eq_str (JStr s) item_id = (s = item_id)"
| "py_eq_str v item_id = False"

text \<open>The loop of \<open>get_diary_item\<close> and the \<open>raise\<close> that follows it.\<close>

fun scan_items :: "json list \<Rightarrow> pystr \<Rightarrow> exn + json" where
  "scan_items [] item_id =
     Inl (Http (HTTPException 404 (ascii ''Diary item not found'')))"
| "scan_items (item # rest) item_id =
     (case py_get item (ascii ''id'') of
        Inl e \<Rightarrow> Inl (Py e)
      | Inr v \<Rightarrow> if py_eq_str v item_id then Inr item else scan_items rest item_id)"

text \<open>The \<open>try\<close> block of \<open>get_diary_item\<close>.\<close>

definition get_diary_item_try :: "pystr \<Rightarrow> world \<Rightarrow> (exn + json) \<times> world" where
  "get_diary_item_try item_id w =
     (case list_diary w of
        (Inl h, w') \<Rightarrow> (Inl (Http h), w')
      | (Inr items, w') \<Rightarrow>
          (case py_iter items of
             Inl e \<Rightarrow> (Inl (Py e), w')
           | Inr xs \<Rightarrow> (scan_items xs item_id, w')))"

definition get_diary_item :: "pystr \<Rightarrow> world \<Rightarrow> (http_exception + json) \<times> world" where
  "get_diary_item item_id w =
     (case get_diary_item_try item_id w of
        (Inr item, w') \<Rightarrow> (Inr item, w')
      | (Inl (Http h), w') \<Rightarrow> (Inl h, w')
      | (Inl (Py e), w') \<Rightarrow> (Inl (HTTPException 500 (str e)), w'))"

definition read_root :: "world \<Rightarrow> (http_exception + json) \<times> world" where
  "read_root w = (Inr (JObj [(ascii ''message'', JStr (ascii ''Portfolio Backend Running''))]), w)"

subsection \<open>The diagnostic endpoint\<close>

text \<open>The \<open>response\<close> dict of \<open>test_database\<close>: its six keys never change.\<close>

record test_response =
  backend :: pystr
  database :: pystr
  database_url :: "pystr option"
  database_name :: "pystr option"
  connection_status :: pystr
  collections :: "pystr list"

text \<open>
  \<open>hasattr(db, 'name')\<close> evaluates \<open>db.name\<close>: it is false when that raises
  \<open>AttributeError\<close> and lets any other exception through.
\<close>

definition hasattr_name :: "db_handle \<Rightarrow> py_error + bool" where
  "hasattr_name db =
     (case db_name db of
        Inr _ \<Rightarrow> Inr True
      | Inl e \<Rightarrow> if exc_class_of e = AttributeError then Inr False else Inl e)"

text \<open>The inner \<open>try\<close> statement, with its \<open>except\<close> clause.\<close>

definition test_database_collections :: "db_handle \<Rightarrow> test_response \<Rightarrow> test_response" where
  "test_database_collections db response =
     (case db_list_collection_names db of
        Inr names \<Rightarrow>
          response\<lparr>collections := take 10 names,
                   database := CHECK_MARK @ ascii '' Connected & Working''\<rparr>
      | Inl e \<Rightarrow>
          response\<lparr>database :=
            WARNING_SIGN @ ascii ''  Connected but Error: '' @ take 50 (str e)\<rparr>)"

text \<open>
  The outer \<open>try\<close> block: the exception it raises, if any, and \<open>response\<close> as the
  assignments before the \<open>raise\<close> have left it.
\<close>

definition test_database_try :: "world \<Rightarrow> test_response \<Rightarrow> py_error option \<times> test_response" where
  "test_database_try w response =
     (case database_module w of
        Inl e \<Rightarrow> (Some e, response)
      | Inr None \<Rightarrow>
          (None, response\<lparr>database := WARNING_SIGN @ ascii ''  Available but not initialized''\<rparr>)
      | Inr (Some db) \<Rightarrow>
          (let response1 = response\<lparr>database := CHECK_MARK @ ascii '' Available'',
                                     database_url := Some (CHECK_MARK @ ascii '' Configured'')\<rparr>
           in case hasattr_name db of
                Inl e \<Rightarrow> (Some e, response1)
              | Inr has \<Rightarrow>
                  (case (if has then db_name db else Inr (CHECK_MARK @ ascii '' Connected'')) of
                     Inl e \<Rightarrow> (Some e, response1)
                   | Inr name \<Rightarrow>
                       (None,
                        test_database_collections db
                          (response1\<lparr>database_name := Some name,
                                     connection_status := ascii ''Connected''\<rparr>)))))"

text \<open>\<open>os.getenv(key)\<close> as a condition: set, and not the empty string.\<close>

definition getenv_truthy :: "world \<Rightarrow> pystr \<Rightarrow> bool" where
  "getenv_truthy w key = (case environ w key of None \<Rightarrow> False | Some v \<Rightarrow> v \<noteq> [])"

text \<open>The dict \<open>response\<close> starts from.\<close>

definition initial_response :: test_response where
  "initial_response =
     \<lparr>backend = CHECK_MARK @ ascii '' Running'',
      database = CROSS_MARK @ ascii '' Not Available'',
      database_url = None,
      database_name = None,
      connection_status = ascii ''Not Connected'',
      collections = []\<rparr>"

definition test_database :: "world \<Rightarrow> (http_exception + test_response) \<times> world" where
  "test_database w =
     (let response2 =
            (case test_database_try w initial_response of
               (None, r) \<Rightarrow> r
             | (Some e, r) \<Rightarrow>
                 if isinstance_ImportError e
                 then r\<lparr>database :=
                        CROSS_MARK @ ascii '' Database module not found (run enable-database first)''\<rparr>
                 else r\<lparr>database := CROSS_MARK @ ascii '' Error: '' @ take 50 (str e)\<rparr>);
          response3 =
            response2\<lparr>database_url :=
                         Some (if getenv_truthy w (ascii ''DATABASE_URL'')
                               then CHECK_MARK @ ascii '' Set'' else CROSS_MARK @ ascii '' Not Set''),
                      database_name :=
                         Some (if getenv_truthy w (ascii ''DATABASE_NAME'')
                               then CHECK_MARK @ ascii '' Set'' else CROSS_MARK @ ascii '' Not Set'')\<rparr>
      in (Inr response3, w))"

subsection \<open>Routing\<close>

datatype request =
    GET_root
  | GET_api_profile
  | GET_api_diary
  | GET_api_diary_item pystr
  | GET_test

datatype body = Json json | Diagnostic test_response

definition handle :: "request \<Rightarrow> world \<Rightarrow> (http_exception + body) \<times> world" where
  "handle req w =
     (case req of
        GET_root \<Rightarrow> apfst (map_sum id Json) (read_root w)
      | GET_api_profile \<Rightarrow> apfst (map_sum id Json) (get_profile w)
      | GET_api_diary \<Rightarrow> apfst (map_sum id Json) (list_diary w)
      | GET_api_diary_item item_id \<Rightarrow> apfst (map_sum id Json) (get_diary_item item_id w)
      | GET_test \<Rightarrow> apfst (map_sum id Diagnostic) (test_database w))"

section \<open>Concrete scenarios\<close>

definition ada_profile :: json where
  "ada_profile =
     JObj [(ascii ''name'', JStr (ascii ''Ada'')),
           (ascii ''photo_url'', JStr (ascii ''a.png'')),
           (ascii ''socials'',
              JArr [JObj [(ascii ''label'', JStr (ascii ''site'')),
                          (ascii ''url'', JStr (ascii ''http://x''))]])]"

definition day1_item :: json where
  "day1_item =
     JObj [(ascii ''id'', JStr (ascii ''1'')),
           (ascii ''title'', JStr (ascii ''Day1'')),
           (ascii ''date'', JStr (ascii ''2024-01-01''))]"

definition scenario_world :: world where
  "scenario_world =
     \<lparr>backend_dir = ascii ''/app'',
      files = (\<lambda>p. if p = ascii ''/app/profile.json'' then Present (Inr ada_profile)
                   else if p = ascii ''/app/diary.json'' then Present (Inr (JArr [day1_item]))
                   else Absent),
      environ = (\<lambda>k. None),
      database_module = Inl (PyError ModuleNotFoundError (ascii ''No module named database''))\<rparr>"

text \<open>The scenario with diary.json parsing to a given value.\<close>

definition with_diary :: "json \<Rightarrow> world" where
  "with_diary v =
     scenario_world\<lparr>files := (files scenario_world)(ascii ''/app/diary.json'' := Present (Inr v))\<rparr>"

text \<open>The scenario with a file that exists and cannot be read or parsed.\<close>

definition decode_error :: py_error where
  "decode_error =
     PyError (OtherException (ascii ''JSONDecodeError''))
       (ascii ''Expecting value: line 1 column 1 (char 0)'')"

definition with_broken :: "pystr \<Rightarrow> world" where
  "with_broken path =
     scenario_world\<lparr>files := (files scenario_world)(path := Present (Inl decode_error))\<rparr>"

text \<open>The scenario with a database of twelve collections, or one that fails to list them.\<close>

definition twelve_names :: "pystr list" where
  "twelve_names = map (\<lambda>c. ascii [c]) ''abcdefghijkl''"

definition timeout_error :: py_error where
  "timeout_error =
     PyError (OtherException (ascii ''ServerSelectionTimeoutError''))
       (ascii ''localhost:27017: [Errno 111] Connection refused, Timeout: 30s, Topology Description: unknown'')"

definition with_database :: "py_error + pystr list \<Rightarrow> world" where
  "with_database listing =
     scenario_world\<lparr>database_module :=
       Inr (Some \<lparr>db_name = Inr (ascii ''portfolio''), db_list_collection_names = listing\<rparr>)\<rparr>"

definition empty_world :: world where
  "empty_world =
     \<lparr>backend_dir = ascii ''/app'',
      files = (\<lambda>p. Absent),
      environ = (\<lambda>k. None),
      database_module = Inl (PyError ModuleNotFoundError (ascii ''No module named database''))\<rparr>"

subsection \<open>Predicates of the statements\<close>

fun is_object :: "json \<Rightarrow> bool" where
  "is_object (JObj _) = True"
| "is_object _ = False"

text \<open>The item is an object whose \<open>"id"\<close> field is the string \<open>item_id\<close>.\<close>

fun has_id :: "json \<Rightarrow> pystr \<Rightarrow> bool" where
  "has_id (JObj kvs) item_id = (map_of kvs (ascii ''id'') = Some (JStr item_id))"
| "has_id _ item_id = False"

section \<open>Properties\<close>

lemma read_json_file_Present:
  "files w path = Present r \<Longrightarrow> read_json_file path w = (r, w)"
  by (simp add: read_json_file_def os_path_exists_def open_json_load_def)

lemma read_json_file_Absent:
  "files w path = Absent \<Longrightarrow>
   read_json_file path w =
     (Inl (PyError FileNotFoundError (ascii ''File not found: '' @ path)), w)"
  by (simp add: read_json_file_def os_path_exists_def)

lemma scenario_paths:
  "PROFILE_PATH scenario_world = ascii ''/app/profile.json''"
  "DIARY_PATH scenario_world = ascii ''/app/diary.json''"
  "PROFILE_PATH empty_world = ascii ''/app/profile.json''"
  "DIARY_PATH empty_world = ascii ''/app/diary.json''"
  "PROFILE_PATH (with_diary v) = ascii ''/app/profile.json''"
  "DIARY_PATH (with_diary v) = ascii ''/app/diary.json''"
  "PROFILE_PATH (with_broken p) = ascii ''/app/profile.json''"
  "DIARY_PATH (with_broken p) = ascii ''/app/diary.json''"
  by (simp_all add: PROFILE_PATH_def DIARY_PATH_def os_path_join_def scenario_world_def
      empty_world_def with_diary_def with_broken_def ascii_def)

lemma files_with_diary:
  "files (with_diary v) (DIARY_PATH (with_diary v)) = Present (Inr v)"
  unfolding scenario_paths by (simp add: with_diary_def)

lemma files_with_broken:
  "files (with_broken p) p = Present (Inl decode_error)"
  by (simp add: with_broken_def)

lemma files_empty_world:
  "files empty_world p = Absent"
  by (simp add: empty_world_def)



subsection \<open>The diary list\<close>



text \<open>
  C4. When diary.json does not exist, the handler of GET /api/diary returns the empty
  array, answered with status 200, and raises nothing.
\<close>

theorem list_diary_missing:
  "files w (DIARY_PATH w) = Absent \<Longrightarrow>
   fst (list_diary w) = Inr (JArr []) \<and> status_of (fst (list_diary w)) = 200"
  by (simp add: list_diary_def read_json_file_Absent status_of_def
      isinstance_FileNotFoundError_def)

theorem list_diary_missing_witness:
  "files empty_world (DIARY_PATH empty_world) = Absent
   \<and> fst (list_diary empty_world) = Inr (JArr [])
   \<and> status_of (fst (list_diary empty_world)) = 200"
proof -
  have h: "files empty_world (DIARY_PATH empty_world) = Absent"
    by (rule files_empty_world)
  from list_diary_missing [OF h] h show ?thesis by blast
qed

text \<open>
  C9. When diary.json exists and parses to a value that is neither a list nor an object
  with an \<open>"items"\<close> key, the handler of GET /api/diary returns the empty array, answered
  with status 200.
\<close>

theorem list_diary_other_shape:
  "files w (DIARY_PATH w) = Present (Inr v) \<Longrightarrow>
   \<forall>xs. v \<noteq> JArr xs \<Longrightarrow>
   \<forall>kvs. v = JObj kvs \<longrightarrow> map_of kvs (ascii ''items'') = None \<Longrightarrow>
   fst (list_diary w) = Inr (JArr []) \<and> status_of (fst (list_diary w)) = 200"
  by (cases v) (simp_all add: list_diary_def read_json_file_Present status_of_def)

theorem list_diary_other_shape_witness:
  "fst (list_diary (with_diary (JStr (ascii ''hello'')))) = Inr (JArr [])
   \<and> status_of (fst (list_diary (with_diary (JStr (ascii ''hello''))))) = 200
   \<and> fst (list_diary (with_diary (JInt 5))) = Inr (JArr [])
   \<and> fst (list_diary (with_diary day1_item)) = Inr (JArr [])"
proof -
  have a1: "\<forall>xs. JStr (ascii ''hello'') \<noteq> JArr xs"
    and b1: "\<forall>kvs. JStr (ascii ''hello'') = JObj kvs \<longrightarrow> map_of kvs (ascii ''items'') = None"
    by simp_all
  have a2: "\<forall>xs. JInt 5 \<noteq> JArr xs"
    and b2: "\<forall>kvs. JInt 5 = JObj kvs \<longrightarrow> map_of kvs (ascii ''items'') = None"
    by simp_all
  have a3: "\<forall>xs. day1_item \<noteq> JArr xs"
    and b3: "\<forall>kvs. day1_item = JObj kvs \<longrightarrow> map_of kvs (ascii ''items'') = None"
    by (simp_all add: day1_item_def ascii_def)
  from list_diary_other_shape [OF files_with_diary a1 b1]
    list_diary_other_shape [OF files_with_diary a2 b2]
    list_diary_other_shape [OF files_with_diary a3 b3]
  show ?thesis by blast
qed

subsection \<open>The profile\<close>

text \<open>
  C5. When profile.json does not exist, the handler of GET /api/profile raises an HTTP
  failure of status 404 whose detail text contains \<open>profile.json\<close>.
\<close>

theorem get_profile_missing:
  "files w (PROFILE_PATH w) = Absent \<Longrightarrow>
   (\<exists>h. fst (get_profile w) = Inl h \<and> status_code h = 404
        \<and> sublist (ascii ''profile.json'') (detail h))
   \<and> status_of (fst (get_profile w)) = 404"
  by (simp add: get_profile_def read_json_file_Absent status_of_def
      isinstance_FileNotFoundError_def ascii_def prefix_imp_sublist)

theorem get_profile_missing_witness:
  "files empty_world (PROFILE_PATH empty_world) = Absent
   \<and> (\<exists>h. fst (get_profile empty_world) = Inl h \<and> status_code h = 404
          \<and> sublist (ascii ''profile.json'') (detail h))
   \<and> status_of (fst (get_profile empty_world)) = 404"
proof -
  have h: "files empty_world (PROFILE_PATH empty_world) = Absent"
    by (rule files_empty_world)
  from get_profile_missing [OF h] h show ?thesis by blast
qed

subsection \<open>One diary item\<close>

lemma py_get_id_object:
  "is_object p \<Longrightarrow>
   \<exists>v. py_get p (ascii ''id'') = Inr v \<and> py_eq_str v item_id = has_id p item_id"
proof (cases p)
  case (JObj kvs)
  show ?thesis
  proof (cases "map_of kvs (ascii ''id'')")
    case None
    with JObj show ?thesis by simp
  next
    case (Some v)
    with JObj show ?thesis by (cases v) auto
  qed
qed simp_all

lemma scan_items_skip:
  assumes "is_object p" and "\<not> has_id p item_id"
  shows "scan_items (p # rest) item_id = scan_items rest item_id"
proof -
  from py_get_id_object [OF assms(1), of item_id]
  obtain v where "py_get p (ascii ''id'') = Inr v" and "py_eq_str v item_id = has_id p item_id"
    by blast
  with assms(2) show ?thesis by simp
qed



lemma scan_items_no_match:
  "\<forall>p \<in> set xs. is_object p \<and> \<not> has_id p item_id \<Longrightarrow>
   scan_items xs item_id = Inl (Http (HTTPException 404 (ascii ''Diary item not found'')))"
proof (induction xs)
  case Nil
  then show ?case by simp
next
  case (Cons p xs)
  then show ?case by (simp add: scan_items_skip del: scan_items.simps(2))
qed


lemma list_diary_with_diary_list:
  "fst (list_diary (with_diary (JArr xs))) = Inr (JArr xs)"
  by (simp add: list_diary_def read_json_file_Present [OF files_with_diary])

lemma list_diary_scenario:
  "fst (list_diary scenario_world) = Inr (JArr [day1_item])"
proof -
  have "files scenario_world (DIARY_PATH scenario_world) = Present (Inr (JArr [day1_item]))"
    unfolding scenario_paths by (simp add: scenario_world_def ascii_def)
  then show ?thesis
    by (simp add: list_diary_def read_json_file_Present)
qed

lemma day1_item_ids:
  "has_id day1_item (ascii ''1'')" "\<not> has_id day1_item (ascii ''2'')" "is_object day1_item"
  by (simp_all add: day1_item_def ascii_def)




subsection \<open>Failures at the endpoint boundary\<close>

lemma read_with_broken:
  "fst (read_json_file (PROFILE_PATH (with_broken (ascii ''/app/profile.json'')))
          (with_broken (ascii ''/app/profile.json''))) = Inl decode_error"
  "fst (read_json_file (DIARY_PATH (with_broken (ascii ''/app/diary.json'')))
          (with_broken (ascii ''/app/diary.json''))) = Inl decode_error"
  unfolding scenario_paths by (simp_all add: read_json_file_Present [OF files_with_broken])

lemma decode_error_class:
  "\<not> isinstance_FileNotFoundError decode_error"
  by (simp add: decode_error_def isinstance_FileNotFoundError_def)

lemma get_diary_item_try_of_list:
  "fst (list_diary w) = Inr (JArr xs) \<Longrightarrow>
   fst (get_diary_item_try item_id w) = scan_items xs item_id"
  by (cases "list_diary w") (simp add: get_diary_item_try_def)

text \<open>
  C6. An exception raised by reading the file that is not a \<open>FileNotFoundError\<close> makes
  the profile and the diary-list handlers raise the HTTP failure of status 500 whose
  detail is \<open>str(e)\<close>; an exception raised in the \<open>try\<close> block of the diary-item
  handler that is not an \<open>HTTPException\<close> does the same there; an \<open>HTTPException\<close>
  raised in that block, in particular by \<open>list_diary\<close>, is raised again unchanged.
\<close>

theorem endpoint_failures:
  "(fst (read_json_file (PROFILE_PATH w) w) = Inl e \<and> \<not> isinstance_FileNotFoundError e
      \<longrightarrow> fst (get_profile w) = Inl (HTTPException 500 (str e))
          \<and> status_of (fst (get_profile w)) = 500)
   \<and> (fst (read_json_file (DIARY_PATH w) w) = Inl e \<and> \<not> isinstance_FileNotFoundError e
      \<longrightarrow> fst (list_diary w) = Inl (HTTPException 500 (str e))
          \<and> status_of (fst (list_diary w)) = 500)
   \<and> (fst (get_diary_item_try item_id w) = Inl (Py e)
      \<longrightarrow> fst (get_diary_item item_id w) = Inl (HTTPException 500 (str e))
          \<and> status_of (fst (get_diary_item item_id w)) = 500)
   \<and> (fst (get_diary_item_try item_id w) = Inl (Http h)
      \<longrightarrow> fst (get_diary_item item_id w) = Inl h)
   \<and> (fst (list_diary w) = Inl h \<longrightarrow> fst (get_diary_item item_id w) = Inl h)"
proof -
  have profile: "fst (read_json_file (PROFILE_PATH w) w) = Inl e
      \<and> \<not> isinstance_FileNotFoundError e
      \<longrightarrow> fst (get_profile w) = Inl (HTTPException 500 (str e))
          \<and> status_of (fst (get_profile w)) = 500"
    by (cases "read_json_file (PROFILE_PATH w) w") (simp add: get_profile_def status_of_def)
  have diary: "fst (read_json_file (DIARY_PATH w) w) = Inl e
      \<and> \<not> isinstance_FileNotFoundError e
      \<longrightarrow> fst (list_diary w) = Inl (HTTPException 500 (str e))
          \<and> status_of (fst (list_diary w)) = 500"
    by (cases "read_json_file (DIARY_PATH w) w") (simp add: list_diary_def status_of_def)
  have item: "fst (get_diary_item_try item_id w) = Inl (Py e)
      \<longrightarrow> fst (get_diary_item item_id w) = Inl (HTTPException 500 (str e))
          \<and> status_of (fst (get_diary_item item_id w)) = 500"
    by (cases "get_diary_item_try item_id w") (simp add: get_diary_item_def status_of_def)
  have reraise: "fst (get_diary_item_try item_id w) = Inl (Http h)
      \<longrightarrow> fst (get_diary_item item_id w) = Inl h"
    by (cases "get_diary_item_try item_id w") (simp add: get_diary_item_def)
  have from_list: "fst (list_diary w) = Inl h \<longrightarrow> fst (get_diary_item item_id w) = Inl h"
    by (cases "list_diary w") (simp add: get_diary_item_def get_diary_item_try_def)
  from profile diary item reraise from_list show ?thesis
    by (intro conjI)
qed


theorem endpoint_failures_witness:
  "fst (get_profile (with_broken (ascii ''/app/profile.json'')))
     = Inl (HTTPException 500 (str decode_error))
   \<and> fst (list_diary (with_broken (ascii ''/app/diary.json'')))
     = Inl (HTTPException 500 (str decode_error))
   \<and> fst (get_diary_item (ascii ''1'') (with_diary (JArr [JInt 5])))
     = Inl (HTTPException 500
         (quoted (ascii ''int'') @ ascii '' object has no attribute '' @ quoted (ascii ''get'')))
   \<and> fst (get_diary_item (ascii ''2'') scenario_world)
     = Inl (HTTPException 404 (ascii ''Diary item not found''))
   \<and> fst (get_diary_item (ascii ''1'') (with_broken (ascii ''/app/diary.json'')))
     = Inl (HTTPException 500 (str decode_error))"
proof -
  let ?p = "with_broken (ascii ''/app/profile.json'')"
  let ?d = "with_broken (ascii ''/app/diary.json'')"
  let ?msg = "quoted (ascii ''int'') @ ascii '' object has no attribute '' @ quoted (ascii ''get'')"
  have r1: "fst (get_profile ?p) = Inl (HTTPException 500 (str decode_error))"
    using endpoint_failures [of ?p decode_error] read_with_broken(1) decode_error_class
    by blast
  have r2: "fst (list_diary ?d) = Inl (HTTPException 500 (str decode_error))"
    using endpoint_failures [of ?d decode_error] read_with_broken(2) decode_error_class
    by blast
  have t3: "fst (get_diary_item_try (ascii ''1'') (with_diary (JArr [JInt 5])))
      = Inl (Py (PyError AttributeError ?msg))"
    by (simp add: get_diary_item_try_of_list [OF list_diary_with_diary_list])
  have r3: "fst (get_diary_item (ascii ''1'') (with_diary (JArr [JInt 5])))
      = Inl (HTTPException 500 ?msg)"
    using endpoint_failures
      [of "with_diary (JArr [JInt 5])" "PyError AttributeError ?msg" "ascii ''1''"] t3
    by simp
  have t4: "fst (get_diary_item_try (ascii ''2'') scenario_world)
      = Inl (Http (HTTPException 404 (ascii ''Diary item not found'')))"
    by (simp add: get_diary_item_try_of_list [OF list_diary_scenario]
        scan_items_no_match day1_item_ids del: scan_items.simps)
  have r4: "fst (get_diary_item (ascii ''2'') scenario_world)
      = Inl (HTTPException 404 (ascii ''Diary item not found''))"
    using endpoint_failures [of scenario_world _ "ascii ''2''"
        "HTTPException 404 (ascii ''Diary item not found'')"] t4
    by blast
  have r5: "fst (get_diary_item (ascii ''1'') ?d) = Inl (HTTPException 500 (str decode_error))"
    using endpoint_failures [of ?d _ "ascii ''1''" "HTTPException 500 (str decode_error)"] r2
    by blast
  from r1 r2 r3 r4 r5 show ?thesis by blast
qed

subsection \<open>The diagnostic endpoint never fails\<close>

lemma test_database_returns:
  "\<exists>r. fst (test_database w) = Inr r"
  by (simp add: test_database_def Let_def)

lemma collections_test_database_collections:
  "collections (test_database_collections db r) =
     (case db_list_collection_names db of Inr names \<Rightarrow> take 10 names | Inl e \<Rightarrow> collections r)"
  by (simp add: test_database_collections_def split: sum.splits)

lemma database_test_database_collections:
  "database (test_database_collections db r) =
     (case db_list_collection_names db of
        Inr names \<Rightarrow> CHECK_MARK @ ascii '' Connected & Working''
      | Inl e \<Rightarrow> WARNING_SIGN @ ascii ''  Connected but Error: '' @ take 50 (str e))"
  by (simp add: test_database_collections_def split: sum.splits)

lemma test_database_try_collections:
  "collections r = [] \<Longrightarrow> length (collections (snd (test_database_try w r))) \<le> 10"
  by (simp add: test_database_try_def Let_def collections_test_database_collections
      split: sum.splits option.splits)

lemma test_database_fields:
  assumes "fst (test_database w) = Inr r"
  shows "collections r = collections (snd (test_database_try w initial_response))"
    and "database r =
      (case fst (test_database_try w initial_response) of
         None \<Rightarrow> database (snd (test_database_try w initial_response))
       | Some e \<Rightarrow>
           if isinstance_ImportError e
           then CROSS_MARK @ ascii '' Database module not found (run enable-database first)''
           else CROSS_MARK @ ascii '' Error: '' @ take 50 (str e))"
  using assms
  by (cases "test_database_try w initial_response";
      auto simp add: test_database_def Let_def split: option.splits)+

lemma timeout_error_class:
  "\<not> isinstance_ImportError timeout_error"
  by (simp add: timeout_error_def isinstance_ImportError_def)

lemma database_module_with_database:
  "database_module (with_database listing)
     = Inr (Some \<lparr>db_name = Inr (ascii ''portfolio''), db_list_collection_names = listing\<rparr>)"
  by (simp add: with_database_def)

text \<open>
  C7. The handler of GET /test returns, hence is answered with status 200, in every
  world: whatever importing the database module yields, whatever the attribute and the
  listing of collections yield, and whatever the environment holds. Each failure of the
  probe ends as a status string in the \<open>database\<close> field: a failed import (an
  \<open>ImportError\<close> or any other exception), a failing access to \<open>db.name\<close>, and a
  failing listing of the collections.
\<close>

theorem test_database_never_fails:
  "status_of (fst (test_database w)) = 200
   \<and> (\<exists>r. fst (test_database w) = Inr r
        \<and> (database_module w = Inl e \<and> isinstance_ImportError e
             \<longrightarrow> database r
                 = CROSS_MARK @ ascii '' Database module not found (run enable-database first)'')
        \<and> (database_module w = Inl e \<and> \<not> isinstance_ImportError e
             \<longrightarrow> database r = CROSS_MARK @ ascii '' Error: '' @ take 50 (str e))
        \<and> (database_module w = Inr (Some db) \<and> hasattr_name db = Inl e
             \<longrightarrow> database r
                 = (if isinstance_ImportError e
                    then CROSS_MARK
                      @ ascii '' Database module not found (run enable-database first)''
                    else CROSS_MARK @ ascii '' Error: '' @ take 50 (str e)))
        \<and> (database_module w = Inr (Some db) \<and> hasattr_name db = Inr has
              \<and> db_list_collection_names db = Inl e
             \<longrightarrow> database r
                 = WARNING_SIGN @ ascii ''  Connected but Error: '' @ take 50 (str e)))"
proof -
  obtain r where ret: "fst (test_database w) = Inr r"
    using test_database_returns by blast
  note db = test_database_fields(2) [OF ret]
  have st: "status_of (fst (test_database w)) = 200"
    by (simp add: ret status_of_def)
  have a: "database_module w = Inl e \<and> isinstance_ImportError e
      \<longrightarrow> database r
          = CROSS_MARK @ ascii '' Database module not found (run enable-database first)''"
    by (simp add: db test_database_try_def)
  have b: "database_module w = Inl e \<and> \<not> isinstance_ImportError e
      \<longrightarrow> database r = CROSS_MARK @ ascii '' Error: '' @ take 50 (str e)"
    by (simp add: db test_database_try_def)
  have c: "database_module w = Inr (Some db) \<and> hasattr_name db = Inl e
      \<longrightarrow> database r
          = (if isinstance_ImportError e
             then CROSS_MARK @ ascii '' Database module not found (run enable-database first)''
             else CROSS_MARK @ ascii '' Error: '' @ take 50 (str e))"
    by (simp add: db test_database_try_def Let_def)
  have d: "database_module w = Inr (Some db) \<and> hasattr_name db = Inr has
        \<and> db_list_collection_names db = Inl e
      \<longrightarrow> database r = WARNING_SIGN @ ascii ''  Connected but Error: '' @ take 50 (str e)"
    by (auto simp add: db test_database_try_def Let_def hasattr_name_def
        database_test_database_collections split: sum.splits if_splits)
  from st ret a b c d show ?thesis by blast
qed

theorem test_database_never_fails_witness:
  "status_of (fst (test_database scenario_world)) = 200
   \<and> (\<exists>r. fst (test_database scenario_world) = Inr r
        \<and> database r
            = CROSS_MARK @ ascii '' Database module not found (run enable-database first)'')
   \<and> (\<exists>r. fst (test_database (scenario_world\<lparr>database_module := Inl timeout_error\<rparr>)) = Inr r
        \<and> database r = CROSS_MARK @ ascii '' Error: '' @ take 50 (str timeout_error))
   \<and> (\<exists>r. fst (test_database (scenario_world\<lparr>database_module :=
                Inr (Some \<lparr>db_name = Inl timeout_error,
                           db_list_collection_names = Inr []\<rparr>)\<rparr>)) = Inr r
        \<and> database r = CROSS_MARK @ ascii '' Error: '' @ take 50 (str timeout_error))
   \<and> (\<exists>r. fst (test_database (with_database (Inl timeout_error))) = Inr r
        \<and> database r
            = WARNING_SIGN @ ascii ''  Connected but Error: '' @ take 50 (str timeout_error))"
proof -
  let ?missing = "PyError ModuleNotFoundError (ascii ''No module named database'')"
  let ?w2 = "scenario_world\<lparr>database_module := Inl timeout_error\<rparr>"
  let ?db3 = "\<lparr>db_name = Inl timeout_error, db_list_collection_names = Inr []\<rparr>"
  let ?w3 = "scenario_world\<lparr>database_module := Inr (Some ?db3)\<rparr>"
  let ?db4 = "\<lparr>db_name = Inr (ascii ''portfolio''),
              db_list_collection_names = Inl timeout_error\<rparr>"
  have h1: "database_module scenario_world = Inl ?missing \<and> isinstance_ImportError ?missing"
    by (simp add: scenario_world_def isinstance_ImportError_def)
  have h2: "database_module ?w2 = Inl timeout_error \<and> \<not> isinstance_ImportError timeout_error"
    by (simp add: timeout_error_class)
  have h3: "database_module ?w3 = Inr (Some ?db3) \<and> hasattr_name ?db3 = Inl timeout_error"
    by (simp add: hasattr_name_def timeout_error_def)
  have h4: "database_module (with_database (Inl timeout_error)) = Inr (Some ?db4)
      \<and> hasattr_name ?db4 = Inr True \<and> db_list_collection_names ?db4 = Inl timeout_error"
    by (simp add: database_module_with_database hasattr_name_def)
  have r1: "status_of (fst (test_database scenario_world)) = 200
      \<and> (\<exists>r. fst (test_database scenario_world) = Inr r
           \<and> database r
               = CROSS_MARK @ ascii '' Database module not found (run enable-database first)'')"
    using test_database_never_fails [of scenario_world ?missing] h1 by blast
  have r2: "\<exists>r. fst (test_database ?w2) = Inr r
      \<and> database r = CROSS_MARK @ ascii '' Error: '' @ take 50 (str timeout_error)"
    using test_database_never_fails [of ?w2 timeout_error] h2 by blast
  have r3: "\<exists>r. fst (test_database ?w3) = Inr r
      \<and> database r = CROSS_MARK @ ascii '' Error: '' @ take 50 (str timeout_error)"
    using test_database_never_fails [of ?w3 timeout_error ?db3] h3 timeout_error_class
    by (metis (no_types, lifting))
  have r4: "\<exists>r. fst (test_database (with_database (Inl timeout_error))) = Inr r
      \<and> database r
          = WARNING_SIGN @ ascii ''  Connected but Error: '' @ take 50 (str timeout_error)"
    using test_database_never_fails
      [of "with_database (Inl timeout_error)" timeout_error ?db4 True] h4
    by blast
  from r1 r2 r3 r4 show ?thesis by blast
qed

text \<open>
  C10. The \<open>collections\<close> field of the response of GET /test has at most 10 entries,
  and when the collection names can be listed it holds the first 10 of them.
\<close>

theorem test_database_collections_bound:
  "(\<exists>r. fst (test_database w) = Inr r \<and> length (collections r) \<le> 10)
   \<and> (database_module w = Inr (Some db) \<and> hasattr_name db = Inr has
        \<and> db_list_collection_names db = Inr names
       \<longrightarrow> (\<exists>r. fst (test_database w) = Inr r \<and> collections r = take 10 names))"
proof -
  obtain r where ret: "fst (test_database w) = Inr r"
    using test_database_returns by blast
  note cs = test_database_fields(1) [OF ret]
  have "collections initial_response = []"
    by (simp add: initial_response_def)
  then have a: "length (collections r) \<le> 10"
    unfolding cs by (rule test_database_try_collections)
  have b: "database_module w = Inr (Some db) \<and> hasattr_name db = Inr has
        \<and> db_list_collection_names db = Inr names
       \<longrightarrow> collections r = take 10 names"
    by (auto simp add: cs test_database_try_def Let_def hasattr_name_def
        collections_test_database_collections split: sum.splits if_splits)
  from ret a b show ?thesis by blast
qed

theorem test_database_collections_bound_witness:
  "\<exists>r. fst (test_database (with_database (Inr twelve_names))) = Inr r
      \<and> collections r = map (\<lambda>c. ascii [c]) ''abcdefghij''
      \<and> length (collections r) \<le> 10"
proof -
  let ?db = "\<lparr>db_name = Inr (ascii ''portfolio''),
             db_list_collection_names = Inr twelve_names\<rparr>"
  have h: "database_module (with_database (Inr twelve_names)) = Inr (Some ?db)
      \<and> hasattr_name ?db = Inr True \<and> db_list_collection_names ?db = Inr twelve_names"
    by (simp add: database_module_with_database hasattr_name_def)
  have t: "take 10 twelve_names = map (\<lambda>c. ascii [c]) ''abcdefghij''"
    by (simp add: twelve_names_def)
  have "\<exists>r. fst (test_database (with_database (Inr twelve_names))) = Inr r
      \<and> collections r = take 10 twelve_names"
    using test_database_collections_bound
      [of "with_database (Inr twelve_names)" ?db True twelve_names] h
    by blast
  then show ?thesis
    unfolding t by auto
qed


subsection \<open>The files are only read\<close>

lemma snd_read_json_file:
  "snd (read_json_file path w) = w"
  by (cases "files w path")
     (simp_all add: read_json_file_def os_path_exists_def open_json_load_def)

lemma snd_list_diary:
  "snd (list_diary w) = w"
  using snd_read_json_file [of "DIARY_PATH w" w]
  by (cases "read_json_file (DIARY_PATH w) w")
     (auto simp add: list_diary_def split: sum.splits json.splits option.splits)

text \<open>
  C8. No request changes the world it runs in: after every request profile.json and
  diary.json are in the state they were in before it.
\<close>

theorem handle_leaves_world:
  "snd (handle req w) = w
   \<and> files (snd (handle req w)) (PROFILE_PATH w) = files w (PROFILE_PATH w)
   \<and> files (snd (handle req w)) (DIARY_PATH w) = files w (DIARY_PATH w)"
proof -
  have same: "snd (handle req w) = w"
  proof (cases req)
    case GET_root
    then show ?thesis by (simp add: handle_def read_root_def)
  next
    case GET_api_profile
    have "snd (get_profile w) = w"
      using snd_read_json_file [of "PROFILE_PATH w" w]
      by (cases "read_json_file (PROFILE_PATH w) w")
         (auto simp add: get_profile_def split: sum.splits)
    with GET_api_profile show ?thesis by (simp add: handle_def)
  next
    case GET_api_diary
    then show ?thesis by (simp add: handle_def snd_list_diary)
  next
    case (GET_api_diary_item item_id)
    have "snd (get_diary_item_try item_id w) = w"
      using snd_list_diary [of w]
      by (cases "list_diary w")
         (auto simp add: get_diary_item_try_def split: sum.splits)
    then have "snd (get_diary_item item_id w) = w"
      by (cases "get_diary_item_try item_id w")
         (auto simp add: get_diary_item_def split: sum.splits exn.splits)
    with GET_api_diary_item show ?thesis by (simp add: handle_def)
  next
    case GET_test
    then show ?thesis by (simp add: handle_def test_database_def Let_def)
  qed
  then show ?thesis by simp
qed

end
